theory Spec2Isabelle
  imports Complex_Main "HOL-Library.Multiset"
begin

section \<open>The NIRF prediction engine (\<^verbatim>\<open>src/utils/predictionEngine.ts\<close>)\<close>

text \<open>
  The module exports one function, \<^verbatim>\<open>predictStatic\<close>, which maps five numeric
  metrics to a score, a rank interval, a per-metric attribution and a list of
  recommendation strings.

  Conventions of the embedding:
  \<^item> a JavaScript \<^verbatim>\<open>number\<close> is a \<^typ>\<open>real\<close>: arithmetic is exact, and NaN,
    the infinities and IEEE rounding are outside the model;
  \<^item> the integer-valued numbers produced by \<^verbatim>\<open>Math.round\<close> and \<^verbatim>\<open>Math.floor\<close>
    are \<^typ>\<open>int\<close>;
  \<^item> the type \<^verbatim>\<open>keyof NIRFInputs\<close> is the datatype \<open>key\<close>, and an object built
    by assigning its keys in turn is the list of its entries in insertion order, which
    is what \<^verbatim>\<open>Object.entries\<close> returns;
  \<^item> the module-level tables \<^verbatim>\<open>WEIGHTS\<close> and \<^verbatim>\<open>BASELINES\<close> are read through
    parameters \<open>W\<close> and \<open>B\<close> of the step functions, so that the dependence of each
    result on each table can be stated; \<open>predictStatic\<close> supplies the two constants;
  \<^item> reading element \<^verbatim>\<open>[0][0]\<close> of an empty array throws a \<^verbatim>\<open>TypeError\<close>, so
    the function returns \<open>error + PredictionResult\<close>;
  \<^item> \<^verbatim>\<open>toFixed\<close> hands magnitudes of \<open>10\<^sup>2\<^sup>1\<close> or more to the language's
    \<^verbatim>\<open>Number::toString\<close>, which is defined on doubles only: it is the parameter
    \<open>numberToString\<close> of every function that formats a number, and the theorems hold
    for each value of it;
  \<^item> the function is \<^verbatim>\<open>async\<close> but awaits nothing: the model is the value its
    promise resolves to.
\<close>

subsection \<open>Data\<close>

record NIRFInputs =
  TLR :: real
  RPC :: real
  GO :: real
  OI :: real
  PR :: real

record PredictionResult =
  predicted_score :: real
  rank_range_min :: int
  rank_range_max :: int
  shap_values :: "(string \<times> real) list"
  recommendations :: "string list"

datatype key = K_TLR | K_RPC | K_GO | K_OI | K_PR

datatype error = TypeError

text \<open>The property name of a key, and \<^verbatim>\<open>inputs[k]\<close>.\<close>

fun key_name :: "key \<Rightarrow> string" where
  "key_name K_TLR = ''TLR''"
| "key_name K_RPC = ''RPC''"
| "key_name K_GO = ''GO''"
| "key_name K_OI = ''OI''"
| "key_name K_PR = ''PR''"

fun get :: "NIRFInputs \<Rightarrow> key \<Rightarrow> real" where
  "get inputs K_TLR = TLR inputs"
| "get inputs K_RPC = RPC inputs"
| "get inputs K_GO = GO inputs"
| "get inputs K_OI = OI inputs"
| "get inputs K_PR = PR inputs"

text \<open>The two constant tables, and the order in which \<^verbatim>\<open>for (const key in WEIGHTS)\<close>
  visits the keys (the order of the object literal).\<close>

fun WEIGHTS :: "key \<Rightarrow> real" where
  "WEIGHTS K_TLR = 0.35"
| "WEIGHTS K_RPC = 0.30"
| "WEIGHTS K_GO = 0.15"
| "WEIGHTS K_OI = 0.10"
| "WEIGHTS K_PR = 0.10"

fun BASELINES :: "key \<Rightarrow> real" where
  "BASELINES K_TLR = 62.5"
| "BASELINES K_RPC = 47.5"
| "BASELINES K_GO = 69.0"
| "BASELINES K_OI = 57.5"
| "BASELINES K_PR = 50.0"

definition keys :: "key list" where
  "keys = [K_TLR, K_RPC, K_GO, K_OI, K_PR]"

subsection \<open>Built-ins of the language\<close>

text \<open>
  \<^verbatim>\<open>Array.prototype.sort\<close> is stable and orders \<open>a\<close> before \<open>b\<close> when the comparator
  is negative on \<open>(a, b)\<close>. Insertion from the right, each element going in front of
  the first one it does not exceed, is the stable sort for a comparator.
\<close>

fun insert_by :: "('a \<Rightarrow> 'a \<Rightarrow> real) \<Rightarrow> 'a \<Rightarrow> 'a list \<Rightarrow> 'a list" where
  "insert_by cmp x [] = [x]"
| "insert_by cmp x (y # ys) =
     (if cmp x y \<le> 0 then x # y # ys else y # insert_by cmp x ys)"

definition sort_by :: "('a \<Rightarrow> 'a \<Rightarrow> real) \<Rightarrow> 'a list \<Rightarrow> 'a list" where
  "sort_by cmp xs = foldr (insert_by cmp) xs []"

text \<open>\<^verbatim>\<open>arr[0][0]\<close> on an array of entries: the key of the first entry, or a
  \<^verbatim>\<open>TypeError\<close> when the array is empty (\<^verbatim>\<open>undefined[0]\<close>).\<close>

fun first_key :: "(string \<times> real) list \<Rightarrow> error + string" where
  "first_key [] = Inl TypeError"
| "first_key (e # es) = Inr (fst e)"

text \<open>The decimal digits of a natural number, most significant first.\<close>

definition digit_char :: "nat \<Rightarrow> char" where
  "digit_char d = ''0123456789'' ! d"

fun decimal_digits :: "nat \<Rightarrow> string" where
  "decimal_digits n =
     (if n < 10 then [digit_char n]
      else decimal_digits (n div 10) @ [digit_char (n mod 10)])"

declare decimal_digits.simps [simp del]

text \<open>
  \<^verbatim>\<open>Number.prototype.toFixed(f)\<close>, after ECMAScript: the sign is split off; a
  magnitude of \<open>10\<^sup>2\<^sup>1\<close> or more is printed by \<^verbatim>\<open>Number::toString\<close> (exponential
  notation); otherwise \<open>n\<close> is the integer nearest to \<open>x \<times> 10\<^sup>f\<close> (the larger of two),
  its digits are padded with zeros to \<open>f + 1\<close> characters and a point is put before
  the last \<open>f\<close>. \<^verbatim>\<open>Number::toString\<close> prints the shortest decimal that reads back as
  the same double, which has no counterpart on the reals: it is the parameter
  \<open>numberToString\<close>.
\<close>

definition toFixed :: "(real \<Rightarrow> string) \<Rightarrow> real \<Rightarrow> nat \<Rightarrow> string" where
  "toFixed numberToString x0 f =
     (let s = (if x0 < 0 then ''-'' else '''');
          x = (if x0 < 0 then - x0 else x0)
      in if x \<ge> 10 ^ 21 then s @ numberToString x
         else
           let n = nat \<lfloor>x * 10 ^ f + 1 / 2\<rfloor>;
               m = decimal_digits n;
               m = (if f \<noteq> 0 then
                      let m = replicate (f + 1 - length m) (CHR ''0'') @ m;
                          k = length m
                      in take (k - f) m @ ''.'' @ drop (k - f) m
                    else m)
           in s @ m)"

subsection \<open>The steps of \<^verbatim>\<open>predictStatic\<close>\<close>

text \<open>Step 1: the weighted sum, accumulated from 0 in key order, then the bias and
  the clamp \<^verbatim>\<open>Math.min(100, Math.max(0, score + 2.5))\<close>.\<close>

definition weighted_sum :: "(key \<Rightarrow> real) \<Rightarrow> NIRFInputs \<Rightarrow> real" where
  "weighted_sum W inputs = foldl (\<lambda>score k. score + get inputs k * W k) 0 keys"

definition score :: "(key \<Rightarrow> real) \<Rightarrow> NIRFInputs \<Rightarrow> real" where
  "score W inputs = min 100 (max 0 (weighted_sum W inputs + 2.5))"

text \<open>Step 2: the rank range. \<^verbatim>\<open>Math.round\<close> rounds halves up, as \<^const>\<open>round\<close>
  does.\<close>

definition minExpected :: real where "minExpected = 20"
definition maxExpected :: real where "maxExpected = 95"
definition totalSamples :: real where "totalSamples = 1000"

definition normalized :: "real \<Rightarrow> real" where
  "normalized sc = (sc - minExpected) / (maxExpected - minExpected)"

definition estimatedRank :: "real \<Rightarrow> int" where
  "estimatedRank sc = max 1 (round (totalSamples * (1 - normalized sc)))"

definition rankMargin :: "int \<Rightarrow> int" where
  "rankMargin r = max 5 \<lfloor>of_int r * (0.12 :: real)\<rfloor>"

definition rankMin :: "int \<Rightarrow> int" where
  "rankMin r = max 1 (r - rankMargin r)"

definition rankMax :: "int \<Rightarrow> int" where
  "rankMax r = r + rankMargin r"

text \<open>Step 3: the attribution of each key, in key order.\<close>

definition shapValues ::
  "(key \<Rightarrow> real) \<Rightarrow> (key \<Rightarrow> real) \<Rightarrow> NIRFInputs \<Rightarrow> (string \<times> real) list" where
  "shapValues W B inputs = map (\<lambda>k. (key_name k, (get inputs k - B k) * W k)) keys"

text \<open>Step 4, logic A: one observation for each negative attribution, in ascending
  order of attribution.\<close>

definition observation :: "(real \<Rightarrow> string) \<Rightarrow> string \<times> real \<Rightarrow> string" where
  "observation numberToString e =
     ''AI Observation: '' @ fst e @ '' is currently below the benchmark, detracting ''
       @ toFixed numberToString \<bar>snd e\<bar> 2 @ '' pts from your score.''"

definition sortedShap :: "(string \<times> real) list \<Rightarrow> (string \<times> real) list" where
  "sortedShap shap = sort_by (\<lambda>a b. snd a - snd b) shap"

definition logicA :: "(real \<Rightarrow> string) \<Rightarrow> (string \<times> real) list \<Rightarrow> string list" where
  "logicA numberToString shap =
     map (observation numberToString) (filter (\<lambda>e. snd e < 0) (sortedShap shap))"

text \<open>Logic B: the key whose weight gives the largest gain for ten more units.\<close>

definition impacts :: "(key \<Rightarrow> real) \<Rightarrow> (string \<times> real) list" where
  "impacts W = map (\<lambda>k. (key_name k, 10 * W k)) keys"

definition bestFeat :: "(key \<Rightarrow> real) \<Rightarrow> error + string" where
  "bestFeat W = first_key (sort_by (\<lambda>a b. snd b - snd a) (impacts W))"

definition logicB :: "string \<Rightarrow> string" where
  "logicB feat =
     ''ML Recommendation: Improvements in '' @ feat
       @ '' will yield the highest score boost based on model weights.''"

text \<open>Logic C: the key with the largest absolute attribution.\<close>

definition topImportance :: "(string \<times> real) list \<Rightarrow> error + string" where
  "topImportance shap = first_key (sort_by (\<lambda>a b. \<bar>snd b\<bar> - \<bar>snd a\<bar>) shap)"

definition logicC :: "string \<Rightarrow> string" where
  "logicC feat =
     ''Critical Area: '' @ feat
       @ '' currently has the most significant impact on your profile variance.''"

text \<open>The whole function over given tables, and \<^verbatim>\<open>predictStatic\<close> itself.\<close>

definition predictWith ::
  "(key \<Rightarrow> real) \<Rightarrow> (key \<Rightarrow> real) \<Rightarrow> (real \<Rightarrow> string) \<Rightarrow> NIRFInputs
     \<Rightarrow> error + PredictionResult" where
  "predictWith W B numberToString inputs =
     (let sc = score W inputs;
          r = estimatedRank sc;
          shap = shapValues W B inputs;
          recsA = logicA numberToString shap
      in case bestFeat W of
           Inl e \<Rightarrow> Inl e
         | Inr bf \<Rightarrow>
             (case topImportance shap of
                Inl e \<Rightarrow> Inl e
              | Inr ti \<Rightarrow>
                  Inr \<lparr>predicted_score = sc,
                       rank_range_min = rankMin r,
                       rank_range_max = rankMax r,
                       shap_values = shap,
                       recommendations = take 5 (recsA @ [logicB bf] @ [logicC ti])\<rparr>))"

definition predictStatic :: "(real \<Rightarrow> string) \<Rightarrow> NIRFInputs \<Rightarrow> error + PredictionResult" where
  "predictStatic numberToString inputs = predictWith WEIGHTS BASELINES numberToString inputs"

subsection \<open>Reference notions\<close>

text \<open>
  A magnitude written to two decimal places, as the specification words it: the value
  is rounded to the nearest hundredth (halves up) and written as its integer part, a
  point and two digits. It is compared with \<open>toFixed\<close> below.
\<close>

definition two_decimals :: "real \<Rightarrow> string" where
  "two_decimals x =
     (let n = nat (round (x * 100))
      in decimal_digits (n div 100) @ ''.''
           @ [digit_char (n div 10 mod 10), digit_char (n mod 10)])"

text \<open>
  \<^verbatim>\<open>Number::toString\<close> for the worked examples. Only one of them formats a magnitude
  of \<open>10\<^sup>2\<^sup>1\<close> or more, namely \<open>3.5 \<times> 10\<^sup>2\<^sup>1 + 21.875\<close>, whose nearest double is
  \<^verbatim>\<open>3.5e21\<close>; JavaScript prints it as \<^verbatim>\<open>3.5e+21\<close>.
\<close>

definition exampleToString :: "real \<Rightarrow> string" where
  "exampleToString x = ''3.5e+21''"

section \<open>Properties\<close>

subsection \<open>Basic facts\<close>

text \<open>Sorting keeps the number of entries, so the two \<^verbatim>\<open>[0][0]\<close> reads find an
  entry.\<close>

lemma length_insert_by: "length (insert_by cmp x ys) = Suc (length ys)"
  by (induction ys) simp_all

lemma length_sort_by: "length (sort_by cmp xs) = length xs"
  by (induction xs) (simp_all add: sort_by_def length_insert_by)

lemma length_shapValues: "length (shapValues W B inputs) = 5"
  by (simp add: shapValues_def keys_def)

lemma length_impacts: "length (impacts W) = 5"
  by (simp add: impacts_def keys_def)

lemma first_key_nonempty: "es \<noteq> [] \<Longrightarrow> first_key es = Inr (fst (hd es))"
  by (cases es) simp_all


lemma topImportance_total:
  "topImportance (shapValues W B inputs) =
     Inr (fst (hd (sort_by (\<lambda>a b. \<bar>snd b\<bar> - \<bar>snd a\<bar>) (shapValues W B inputs))))"
proof -
  have "length (sort_by (\<lambda>a b. \<bar>snd b\<bar> - \<bar>snd a\<bar>) (shapValues W B inputs)) = 5"
    by (simp add: length_sort_by length_shapValues)
  then have "sort_by (\<lambda>a b. \<bar>snd b\<bar> - \<bar>snd a\<bar>) (shapValues W B inputs) \<noteq> []"
    by auto
  then show ?thesis
    by (simp add: topImportance_def first_key_nonempty)
qed


text \<open>With the module's weights the gains are constants, and the largest is that of
  TLR.\<close>

lemma impacts_WEIGHTS:
  "impacts WEIGHTS = [(''TLR'', 3.5), (''RPC'', 3), (''GO'', 1.5), (''OI'', 1), (''PR'', 1)]"
  by (simp add: impacts_def keys_def)

lemma bestFeat_WEIGHTS: "bestFeat WEIGHTS = Inr ''TLR''"
  by (simp add: bestFeat_def impacts_WEIGHTS sort_by_def)

lemma predictStatic_result:
  "predictStatic ts inputs =
     Inr \<lparr>predicted_score = score WEIGHTS inputs,
          rank_range_min = rankMin (estimatedRank (score WEIGHTS inputs)),
          rank_range_max = rankMax (estimatedRank (score WEIGHTS inputs)),
          shap_values = shapValues WEIGHTS BASELINES inputs,
          recommendations =
            take 5 (logicA ts (shapValues WEIGHTS BASELINES inputs)
              @ [logicB ''TLR'']
              @ [logicC (fst (hd (sort_by (\<lambda>a b. \<bar>snd b\<bar> - \<bar>snd a\<bar>)
                    (shapValues WEIGHTS BASELINES inputs))))])\<rparr>"
  by (simp add: predictStatic_def predictWith_def bestFeat_WEIGHTS topImportance_total Let_def)

lemma weighted_sum_WEIGHTS:
  "weighted_sum WEIGHTS inputs =
     TLR inputs * 0.35 + RPC inputs * 0.30 + GO inputs * 0.15
       + OI inputs * 0.10 + PR inputs * 0.10"
  by (simp add: weighted_sum_def keys_def)

lemma shapValues_constants:
  "shapValues WEIGHTS BASELINES inputs =
     [(''TLR'', (TLR inputs - 62.5) * 0.35),
      (''RPC'', (RPC inputs - 47.5) * 0.30),
      (''GO'', (GO inputs - 69.0) * 0.15),
      (''OI'', (OI inputs - 57.5) * 0.10),
      (''PR'', (PR inputs - 50.0) * 0.10)]"
  by (simp add: shapValues_def keys_def)

subsection \<open>The rank range\<close>



lemma estimatedRank_unfold:
  "estimatedRank sc = max 1 (round (1000 * (1 - (sc - 20) / (95 - 20))))"
  by (simp add: estimatedRank_def normalized_def minExpected_def maxExpected_def
      totalSamples_def)



subsection \<open>The sort\<close>

lemma mset_insert_by: "mset (insert_by cmp x ys) = add_mset x (mset ys)"
  by (induction ys) simp_all

lemma mset_sort_by: "mset (sort_by cmp xs) = mset xs"
  by (induction xs) (simp_all add: sort_by_def mset_insert_by)







lemma length_logicA:
  "length (logicA ts shap) = length (filter (\<lambda>e. snd e < 0) shap)"
proof -
  have "mset (filter (\<lambda>e. snd e < 0) (sortedShap shap)) =
          mset (filter (\<lambda>e. snd e < 0) shap)"
    by (simp add: sortedShap_def mset_sort_by)
  then have "length (filter (\<lambda>e. snd e < 0) (sortedShap shap)) =
               length (filter (\<lambda>e. snd e < 0) shap)"
    by (rule mset_eq_length)
  then show ?thesis by (simp add: logicA_def)
qed

lemma length_logicA_le: "length (logicA ts (shapValues W B inputs)) \<le> 5"
  using length_filter_le [of "\<lambda>e. snd e < 0" "shapValues W B inputs"]
  by (simp add: length_logicA length_shapValues)

subsection \<open>Number formatting\<close>

lemma digit_char_0: "digit_char 0 = CHR ''0''"
  by (simp add: digit_char_def)

lemma decimal_digits_small: "n < 10 \<Longrightarrow> decimal_digits n = [digit_char n]"
  by (simp add: decimal_digits.simps)

lemma decimal_digits_step:
  "10 \<le> n \<Longrightarrow> decimal_digits n = decimal_digits (n div 10) @ [digit_char (n mod 10)]"
  by (subst decimal_digits.simps) simp

lemma length_decimal_digits_pos: "0 < length (decimal_digits n)"
  by (subst decimal_digits.simps) simp

lemma decimal_digits_100:
  assumes "100 \<le> n"
  shows "decimal_digits n =
           decimal_digits (n div 100) @ [digit_char (n div 10 mod 10), digit_char (n mod 10)]"
proof -
  have a: "10 \<le> n" and b: "10 \<le> n div 10"
    using assms by simp_all
  have c: "n div 10 div 10 = n div 100"
    by (simp add: div_mult2_eq)
  show ?thesis
    by (simp add: decimal_digits_step [OF a] decimal_digits_step [OF b] c)
qed

text \<open>Below \<open>10\<^sup>2\<^sup>1\<close>, \<open>toFixed\<close> with two fraction digits writes the magnitude to two
  decimal places: the three cases are one, two, and three or more digits of \<open>n\<close>.\<close>

lemma toFixed_two_decimals:
  assumes "0 \<le> x" and "x < 10 ^ 21"
  shows "toFixed ts x 2 = two_decimals x"
proof -
  define n where "n = nat \<lfloor>x * 10\<^sup>2 + 1 / 2\<rfloor>"
  have n2: "nat (round (x * 100)) = n"
    by (simp add: n_def round_def)
  have tf: "toFixed ts x 2 =
      (let m = replicate (3 - length (decimal_digits n)) (CHR ''0'') @ decimal_digits n
       in take (length m - 2) m @ ''.'' @ drop (length m - 2) m)"
    using assms by (simp add: toFixed_def Let_def n_def)
  consider "n < 10" | "10 \<le> n" "n < 100" | "100 \<le> n" by linarith
  then have "(let m = replicate (3 - length (decimal_digits n)) (CHR ''0'') @ decimal_digits n
       in take (length m - 2) m @ ''.'' @ drop (length m - 2) m)
      = decimal_digits (n div 100) @ ''.''
          @ [digit_char (n div 10 mod 10), digit_char (n mod 10)]"
  proof cases
    case 1
    then show ?thesis
      by (simp add: decimal_digits_small digit_char_0)
  next
    case 2
    then have "n div 10 < 10" by simp
    with 2 show ?thesis
      by (simp add: decimal_digits_step decimal_digits_small digit_char_0)
  next
    case 3
    then show ?thesis
      using length_decimal_digits_pos [of "n div 100"]
      by (simp add: decimal_digits_100 Let_def Suc_le_eq)
  qed
  with tf show ?thesis
    by (simp add: two_decimals_def n2 Let_def)
qed

lemma toFixed_large: "10 ^ 21 \<le> x \<Longrightarrow> toFixed ts x f = ts x"
proof -
  assume a: "10 ^ 21 \<le> x"
  have "(0::real) < 10 ^ 21" by simp
  with a have "\<not> x < 0" by linarith
  with a show ?thesis by (simp add: toFixed_def)
qed


subsection \<open>The three passes\<close>



lemma weights_below_TLR: "k \<noteq> K_TLR \<Longrightarrow> WEIGHTS k < WEIGHTS K_TLR"
  by (cases k) simp_all

subsection \<open>Worked examples\<close>

text \<open>Four profiles are evaluated in full: the example of the specification, the two
  boundary profiles (all metrics 0, all metrics 100) and a profile with one very large
  negative metric.\<close>

lemmas eval_defs =
  predictStatic_result score_def weighted_sum_WEIGHTS estimatedRank_unfold round_def
  rankMin_def rankMax_def rankMargin_def shapValues_constants logicA_def sortedShap_def
  sort_by_def logicB_def logicC_def observation_def toFixed_two_decimals two_decimals_def
  toFixed_large decimal_digits.simps digit_char_def exampleToString_def

lemma example_spec:
  "predictStatic exampleToString \<lparr>TLR = 60, RPC = 40, GO = 70, OI = 55, PR = 20\<rparr> =
     Inr \<lparr>predicted_score = 53.5, rank_range_min = 487, rank_range_max = 619,
          shap_values =
            [(''TLR'', - 0.875), (''RPC'', - 2.25), (''GO'', 0.15), (''OI'', - 0.25),
             (''PR'', - 3)],
          recommendations =
            [''AI Observation: PR is currently below the benchmark, detracting 3.00 pts from your score.'',
             ''AI Observation: RPC is currently below the benchmark, detracting 2.25 pts from your score.'',
             ''AI Observation: TLR is currently below the benchmark, detracting 0.88 pts from your score.'',
             ''AI Observation: OI is currently below the benchmark, detracting 0.25 pts from your score.'',
             ''ML Recommendation: Improvements in TLR will yield the highest score boost based on model weights.'']\<rparr>"
  by (simp add: eval_defs)

lemma example_zeros:
  "predictStatic exampleToString \<lparr>TLR = 0, RPC = 0, GO = 0, OI = 0, PR = 0\<rparr> =
     Inr \<lparr>predicted_score = 2.5, rank_range_min = 1086, rank_range_max = 1380,
          shap_values =
            [(''TLR'', - 21.875), (''RPC'', - 14.25), (''GO'', - 10.35), (''OI'', - 5.75),
             (''PR'', - 5)],
          recommendations =
            [''AI Observation: TLR is currently below the benchmark, detracting 21.88 pts from your score.'',
             ''AI Observation: RPC is currently below the benchmark, detracting 14.25 pts from your score.'',
             ''AI Observation: GO is currently below the benchmark, detracting 10.35 pts from your score.'',
             ''AI Observation: OI is currently below the benchmark, detracting 5.75 pts from your score.'',
             ''AI Observation: PR is currently below the benchmark, detracting 5.00 pts from your score.'']\<rparr>"
  by (simp add: eval_defs)

lemma example_hundreds:
  "predictStatic exampleToString \<lparr>TLR = 100, RPC = 100, GO = 100, OI = 100, PR = 100\<rparr> =
     Inr \<lparr>predicted_score = 100, rank_range_min = 1, rank_range_max = 6,
          shap_values =
            [(''TLR'', 13.125), (''RPC'', 15.75), (''GO'', 4.65), (''OI'', 4.25), (''PR'', 5)],
          recommendations =
            [''ML Recommendation: Improvements in TLR will yield the highest score boost based on model weights.'',
             ''Critical Area: RPC currently has the most significant impact on your profile variance.'']\<rparr>"
  by (simp add: eval_defs)


section \<open>The claims\<close>

















text \<open>
  C8. The function is total over all numeric inputs, negative values and values above
  100 included: it always returns a result, and the two reads of element \<open>[0][0]\<close> after
  sorting are in bounds, the sorted lists having five entries each.
\<close>

theorem C8_total:
  "(\<exists>r. predictStatic ts inputs = Inr r)
     \<and> length (sort_by (\<lambda>a b. snd b - snd a) (impacts WEIGHTS)) = 5
     \<and> length (sort_by (\<lambda>a b. \<bar>snd b\<bar> - \<bar>snd a\<bar>) (shapValues WEIGHTS BASELINES inputs)) = 5
     \<and> bestFeat WEIGHTS \<noteq> Inl TypeError
     \<and> topImportance (shapValues WEIGHTS BASELINES inputs) \<noteq> Inl TypeError"
  by (simp add: predictStatic_result length_sort_by length_impacts length_shapValues
      bestFeat_WEIGHTS topImportance_total)

theorem C8_witness:
  "\<exists>r. predictStatic exampleToString \<lparr>TLR = - 5, RPC = 250, GO = 0, OI = 100, PR = 1000\<rparr> = Inr r"
  using C8_total [of exampleToString "\<lparr>TLR = - 5, RPC = 250, GO = 0, OI = 100, PR = 1000\<rparr>"]
  by simp

text \<open>
  C9. For every profile the string of logic B names TLR: the gains are ten times the
  weights, whatever the input; the weight of TLR is strictly the largest; and when
  fewer than five attributions are negative, the entry after the observations is the
  recommendation for TLR.
\<close>

theorem C9_best_feature:
  "bestFeat WEIGHTS = Inr ''TLR''
   \<and> impacts WEIGHTS =
       [(''TLR'', 10 * 0.35), (''RPC'', 10 * 0.30), (''GO'', 10 * 0.15), (''OI'', 10 * 0.10),
        (''PR'', 10 * 0.10)]
   \<and> (\<forall>k. k \<noteq> K_TLR \<longrightarrow> WEIGHTS k < WEIGHTS K_TLR)
   \<and> (\<exists>r. predictStatic ts inputs = Inr r
        \<and> (let a = length (filter (\<lambda>e. snd e < 0) (shap_values r))
            in a < 5 \<longrightarrow>
                 recommendations r ! a =
                   ''ML Recommendation: Improvements in TLR will yield the highest score boost based on model weights.''))"
proof -
  let ?shap = "shapValues WEIGHTS BASELINES inputs"
  have nth: "length (logicA ts ?shap) < 5 \<Longrightarrow>
      take 5 (logicA ts ?shap @ [logicB ''TLR''] @ [x]) ! length (logicA ts ?shap) = logicB ''TLR''"
    for x
    by (simp add: nth_append)
  have "\<exists>r. predictStatic ts inputs = Inr r
        \<and> (let a = length (filter (\<lambda>e. snd e < 0) (shap_values r))
            in a < 5 \<longrightarrow> recommendations r ! a = logicB ''TLR'')"
    using nth by (simp add: predictStatic_result Let_def length_logicA [symmetric, of _ ts])
  then have last: "\<exists>r. predictStatic ts inputs = Inr r
        \<and> (let a = length (filter (\<lambda>e. snd e < 0) (shap_values r))
            in a < 5 \<longrightarrow>
                 recommendations r ! a =
                   ''ML Recommendation: Improvements in TLR will yield the highest score boost based on model weights.'')"
    by (simp add: logicB_def)
  have imp: "impacts WEIGHTS =
       [(''TLR'', 10 * 0.35), (''RPC'', 10 * 0.30), (''GO'', 10 * 0.15), (''OI'', 10 * 0.10),
        (''PR'', 10 * 0.10)]"
    by (simp add: impacts_def keys_def)
  from bestFeat_WEIGHTS imp weights_below_TLR last show ?thesis by blast
qed

theorem C9_witness:
  "WEIGHTS K_RPC < WEIGHTS K_TLR
   \<and> (\<exists>r. predictStatic exampleToString \<lparr>TLR = 60, RPC = 40, GO = 70, OI = 55, PR = 20\<rparr> = Inr r
        \<and> recommendations r ! 4 =
            ''ML Recommendation: Improvements in TLR will yield the highest score boost based on model weights.'')"
  using C9_best_feature
    [of exampleToString "\<lparr>TLR = 60, RPC = 40, GO = 70, OI = 55, PR = 20\<rparr>"]
  by (simp add: example_spec)

text \<open>
  C10. The claim that the cut to 5 entries cannot remove both the string of logic B and
  that of logic C fails: for the all-zero profile all five attributions are negative
  and the result is the five observations alone. What holds for every profile: with
  \<open>a\<close> negative attributions the list has \<open>min 5 (a + 2)\<close> entries, so between 2 and 5,
  and is never empty; both strings are kept when \<open>a \<le> 3\<close>, only that of logic B when
  \<open>a = 4\<close>, and neither when \<open>a = 5\<close>.
\<close>

theorem C10_length:
  "\<exists>r ti. predictStatic ts inputs = Inr r
     \<and> (let a = length (filter (\<lambda>e. snd e < 0) (shap_values r));
             A = logicA ts (shap_values r)
         in length A = a \<and> a \<le> 5
            \<and> length (recommendations r) = min 5 (a + 2)
            \<and> 2 \<le> length (recommendations r)
            \<and> length (recommendations r) \<le> 5
            \<and> recommendations r \<noteq> []
            \<and> (a \<le> 3 \<longrightarrow> recommendations r = A @ [logicB ''TLR'', logicC ti])
            \<and> (a = 4 \<longrightarrow> recommendations r = A @ [logicB ''TLR''])
            \<and> (a = 5 \<longrightarrow> recommendations r = A))"
proof -
  let ?shap = "shapValues WEIGHTS BASELINES inputs"
  let ?ti = "fst (hd (sort_by (\<lambda>a b. \<bar>snd b\<bar> - \<bar>snd a\<bar>) ?shap))"
  let ?R = "\<lparr>predicted_score = score WEIGHTS inputs,
          rank_range_min = rankMin (estimatedRank (score WEIGHTS inputs)),
          rank_range_max = rankMax (estimatedRank (score WEIGHTS inputs)),
          shap_values = ?shap,
          recommendations =
            take 5 (logicA ts ?shap @ [logicB ''TLR''] @ [logicC ?ti])\<rparr>"
  have res: "predictStatic ts inputs = Inr ?R"
    by (rule predictStatic_result)
  have le: "length (logicA ts ?shap) \<le> 5"
    by (rule length_logicA_le)
  have body: "let a = length (filter (\<lambda>e. snd e < 0) (shap_values ?R));
             A = logicA ts (shap_values ?R)
         in length A = a \<and> a \<le> 5
            \<and> length (recommendations ?R) = min 5 (a + 2)
            \<and> 2 \<le> length (recommendations ?R)
            \<and> length (recommendations ?R) \<le> 5
            \<and> recommendations ?R \<noteq> []
            \<and> (a \<le> 3 \<longrightarrow> recommendations ?R = A @ [logicB ''TLR'', logicC ?ti])
            \<and> (a = 4 \<longrightarrow> recommendations ?R = A @ [logicB ''TLR''])
            \<and> (a = 5 \<longrightarrow> recommendations ?R = A)"
    unfolding Let_def PredictionResult.select_convs length_logicA [symmetric, of ?shap ts]
    using le by auto
  from res body show ?thesis by blast
qed

theorem C10_witness:
  "(\<exists>r. predictStatic exampleToString
           \<lparr>TLR = 100, RPC = 100, GO = 100, OI = 100, PR = 100\<rparr> = Inr r
      \<and> length (filter (\<lambda>e. snd e < 0) (shap_values r)) = 0
      \<and> length (recommendations r) = 2)
   \<and> (\<exists>r. predictStatic exampleToString
           \<lparr>TLR = 60, RPC = 40, GO = 70, OI = 55, PR = 20\<rparr> = Inr r
      \<and> length (filter (\<lambda>e. snd e < 0) (shap_values r)) = 4
      \<and> length (recommendations r) = 5)
   \<and> (\<exists>r. predictStatic exampleToString
           \<lparr>TLR = 0, RPC = 0, GO = 0, OI = 0, PR = 0\<rparr> = Inr r
      \<and> length (filter (\<lambda>e. snd e < 0) (shap_values r)) = 5
      \<and> length (recommendations r) = 5)"
  using
    C10_length [of exampleToString "\<lparr>TLR = 100, RPC = 100, GO = 100, OI = 100, PR = 100\<rparr>"]
    C10_length [of exampleToString "\<lparr>TLR = 60, RPC = 40, GO = 70, OI = 55, PR = 20\<rparr>"]
    C10_length [of exampleToString "\<lparr>TLR = 0, RPC = 0, GO = 0, OI = 0, PR = 0\<rparr>"]
  by (simp add: example_hundreds example_spec example_zeros)
text \<open>
  C10 as stated fails at this profile: the cut removes both the string of logic B and
  that of logic C.
\<close>

theorem C10_counterexample:
  "predictStatic exampleToString \<lparr>TLR = 0, RPC = 0, GO = 0, OI = 0, PR = 0\<rparr> =
     Inr \<lparr>predicted_score = 2.5, rank_range_min = 1086, rank_range_max = 1380,
          shap_values =
            [(''TLR'', - 21.875), (''RPC'', - 14.25), (''GO'', - 10.35), (''OI'', - 5.75),
             (''PR'', - 5)],
          recommendations =
            [''AI Observation: TLR is currently below the benchmark, detracting 21.88 pts from your score.'',
             ''AI Observation: RPC is currently below the benchmark, detracting 14.25 pts from your score.'',
             ''AI Observation: GO is currently below the benchmark, detracting 10.35 pts from your score.'',
             ''AI Observation: OI is currently below the benchmark, detracting 5.75 pts from your score.'',
             ''AI Observation: PR is currently below the benchmark, detracting 5.00 pts from your score.'']\<rparr>"
  by (rule example_zeros)

end
